theory Spec2Isabelle
  imports Main "HOL-Library.Sublist"
begin

section \<open>The Wikipedia crawler of webcrawler.py\<close>

text \<open>
  A shallow embedding of \<^verbatim>\<open>src/webcrawler.py\<close>: the classes \<^verbatim>\<open>Webcrawler\<close> and
  \<^verbatim>\<open>Eintrag\<close>. Python strings are modelled as \<^typ>\<open>string\<close>; every character the
  code inspects (\<^verbatim>\<open>/\<close>, \<^verbatim>\<open>:\<close>, \<^verbatim>\<open>#\<close>, the space, the letters of the literals) is
  ASCII, so reading a string as its UTF-8 bytes changes none of the tests below.
  A Python exception is a value of \<open>error\<close>; a function that can raise returns
  \<open>error + 'a\<close>, and one that also mutates the crawler returns the mutated state beside
  the outcome, because a raise does not undo the mutations made before it.
\<close>

subsection \<open>Exceptions\<close>

datatype error =
    IndexError
  | AttributeError
  | FileNotFoundError
  | RequestException string

subsection \<open>String operations of Python used by the source\<close>

text \<open>\<^verbatim>\<open>sub in s\<close>: \<open>sub\<close> occurs in \<open>s\<close> as a contiguous run.\<close>

fun str_contains :: "string \<Rightarrow> string \<Rightarrow> bool" where
  "str_contains sub [] = (sub = [])"
| "str_contains sub (x # xs) = (prefix sub (x # xs) \<or> str_contains sub xs)"

text \<open>\<^verbatim>\<open>s.split(c)\<close> for a one-character separator: never the empty list.\<close>

fun str_split :: "char \<Rightarrow> string \<Rightarrow> string list" where
  "str_split c [] = [[]]"
| "str_split c (x # xs) =
     (if x = c then [] # str_split c xs
      else (case str_split c xs of
              [] \<Rightarrow> [[x]]
            | w # ws \<Rightarrow> (x # w) # ws))"

text \<open>\<^verbatim>\<open>sep.join(ws)\<close>.\<close>

fun str_join :: "string \<Rightarrow> string list \<Rightarrow> string" where
  "str_join sep [] = []"
| "str_join sep [w] = w"
| "str_join sep (w # v # ws) = w @ sep @ str_join sep (v # ws)"

text \<open>\<^verbatim>\<open>xs.pop()\<close>: removes the last element; IndexError on the empty list.\<close>

definition pop :: "'a list \<Rightarrow> error + 'a list" where
  "pop xs = (if xs = [] then Inl IndexError else Inr (butlast xs))"

subsection \<open>Eintrag.getLinks\<close>

definition origin :: string where
  "origin = ''http://de.wikipedia.org''"

definition exc :: "string list" where
  "exc = [''Wikipedia'', ''Portal'', ''Spezial'', ''Kategorie'',
          ''Datei'', ''Hilfe'', ''Diskussion'']"

text \<open>
  The condition of the \<^verbatim>\<open>if\<close> at line 432, with Python's left-to-right evaluation of
  \<^verbatim>\<open>and\<close>: \<^verbatim>\<open>str(l)[0]\<close> is only reached when neither scheme occurs in the href, and it
  raises IndexError on the empty string. The test stands outside the \<^verbatim>\<open>try\<close>.
\<close>

definition first_guard :: "string \<Rightarrow> error + bool" where
  "first_guard l =
     (if str_contains ''https://'' l then Inr False
      else if str_contains ''http://'' l then Inr False
      else (case l of
              [] \<Rightarrow> Inl IndexError
            | c # _ \<Rightarrow> Inr (c \<noteq> CHR ''#'')))"

text \<open>
  The body of the \<^verbatim>\<open>try\<close> (lines 437 to 442) on the segments \<open>sp\<close> left after
  \<^verbatim>\<open>sp.pop(0)\<close>: \<open>Inr True\<close> when the href is appended to \<^verbatim>\<open>links\<close>, \<open>Inr False\<close> when it
  is skipped, \<open>Inl\<close> when \<^verbatim>\<open>sp[0]\<close>, \<^verbatim>\<open>sp[1]\<close> or \<^verbatim>\<open>tg[0]\<close> raises.
\<close>

definition try_body :: "string list \<Rightarrow> error + bool" where
  "try_body sp =
     (case sp of
        [] \<Rightarrow> Inl IndexError
      | s0 # rest \<Rightarrow>
          if s0 = ''wiki'' then
            (case rest of
               [] \<Rightarrow> Inl IndexError
             | s1 # _ \<Rightarrow>
                 (case str_split CHR '':'' s1 of
                    [] \<Rightarrow> Inl IndexError
                  | t0 # _ \<Rightarrow> Inr (t0 \<notin> set exc)))
          else Inr False)"

text \<open>
  The first loop of getLinks. It ends in one of three ways: an exception nobody catches
  inside getLinks, the \<^verbatim>\<open>except\<close> branch (which returns the empty list at once), or the
  end of \<^verbatim>\<open>hrefs\<close> with the collected \<^verbatim>\<open>links\<close>.
\<close>

datatype scan = Uncaught error | Caught | Done "string list"

fun collect :: "string list \<Rightarrow> string list \<Rightarrow> scan" where
  "collect [] links = Done links"
| "collect (l # hrefs) links =
     (case first_guard l of
        Inl e \<Rightarrow> Uncaught e
      | Inr False \<Rightarrow> collect hrefs links
      | Inr True \<Rightarrow>
          (case str_split CHR ''/'' l of
             [] \<Rightarrow> Uncaught IndexError
           | _ # sp \<Rightarrow>
               (case try_body sp of
                  Inl _ \<Rightarrow> Caught
                | Inr True \<Rightarrow> collect hrefs (links @ [l])
                | Inr False \<Rightarrow> collect hrefs links)))"

text \<open>The second loop (lines 447 to 452): absolute URLs, each appended once.\<close>

fun build :: "string list \<Rightarrow> string list \<Rightarrow> string list" where
  "build [] result = result"
| "build (l # links) result =
     (let flink = origin @ l
      in if flink \<in> set result then build links result
         else build links (result @ [flink]))"

text \<open>
  getLinks on the hrefs of the page's anchors (\<^verbatim>\<open>soup.findAll('a', href=True)\<close> is the
  HTML parser's part). The final \<^verbatim>\<open>result.pop()\<close> stands outside the \<^verbatim>\<open>try\<close>.
\<close>

definition getLinks :: "string list \<Rightarrow> error + string list" where
  "getLinks hrefs =
     (case collect hrefs [] of
        Uncaught e \<Rightarrow> Inl e
      | Caught \<Rightarrow> Inr []
      | Done links \<Rightarrow> pop (build links []))"

subsection \<open>The graph (networkx.DiGraph)\<close>

text \<open>
  A node of the graph is any hashable Python value the code hands to networkx. The code
  hands it two kinds: URL strings, and Eintrag objects (line 412 passes \<^verbatim>\<open>self\<close> as the
  \<^verbatim>\<open>source\<close> of a child, and line 480 makes that source an edge endpoint). Eintrag
  defines neither \<^verbatim>\<open>__eq__\<close> nor \<^verbatim>\<open>__hash__\<close>, so two objects are the same node only if
  they are the same object: \<open>Entry i u\<close> is the object with identity \<open>i\<close> whose \<^verbatim>\<open>url\<close>
  attribute is \<open>u\<close> (what \<^verbatim>\<open>__repr__\<close> returns). Nodes and edges are kept in insertion
  order, as the dictionaries of networkx keep them.
\<close>

datatype node = Url string | Entry nat node

record digraph =
  nodes :: "node list"
  edges :: "(node \<times> node) list"

definition empty_graph :: digraph where
  "empty_graph = \<lparr>nodes = [], edges = []\<rparr>"

definition add_node :: "node \<Rightarrow> digraph \<Rightarrow> digraph" where
  "add_node n g = (if n \<in> set (nodes g) then g else g\<lparr>nodes := nodes g @ [n]\<rparr>)"

definition add_edge :: "node \<Rightarrow> node \<Rightarrow> digraph \<Rightarrow> digraph" where
  "add_edge u v g =
     (let g' = add_node v (add_node u g)
      in if (u, v) \<in> set (edges g') then g' else g'\<lparr>edges := edges g' @ [(u, v)]\<rparr>)"

definition number_of_nodes :: "digraph \<Rightarrow> nat" where
  "number_of_nodes g = length (nodes g)"

definition number_of_edges :: "digraph \<Rightarrow> nat" where
  "number_of_edges g = length (edges g)"

text \<open>\<^verbatim>\<open>DiGraph.degree\<close>: in-degree plus out-degree, a self-loop counting twice.\<close>

definition degree :: "digraph \<Rightarrow> node \<Rightarrow> nat" where
  "degree g n = length (filter (\<lambda>e. fst e = n) (edges g)) +
                length (filter (\<lambda>e. snd e = n) (edges g))"

subsection \<open>The crawler's state and its environment\<close>

text \<open>
  What the HTML parser finds in a fetched document: the text of the \<^verbatim>\<open>title\<close> element,
  if there is one, and the \<^verbatim>\<open>href\<close> values of the anchors that have one.
\<close>

record page =
  title_tag :: "string option"
  hrefs :: "string list"

text \<open>
  The network, as the code meets it. \<open>fetch t n\<close> is what \<^verbatim>\<open>requests.get(n).text\<close>,
  parsed, yields at the \<open>t\<close>-th request of the session: a page, or the exception raised
  (live content may change between two requests of the same URL). \<open>random_title t\<close> is
  the quoted title \<^verbatim>\<open>getRandomURL\<close> computes from the site's random-article page.
\<close>

record net =
  fetch :: "nat \<Rightarrow> node \<Rightarrow> error + page"
  random_title :: "nat \<Rightarrow> error + string"

datatype printed = Text string | Shown error

text \<open>
  The mutable state: the attribute \<^verbatim>\<open>graph\<close> of the Webcrawler, the number of requests
  made so far, the console, whether the file \<^verbatim>\<open>graph.xml\<close> exists, and the content of
  \<^verbatim>\<open>testNodeIncrease.txt\<close>.
\<close>

record world =
  graph :: digraph
  ticks :: nat
  console :: "printed list"
  graph_xml :: bool
  node_log :: string

definition print :: "string \<Rightarrow> world \<Rightarrow> world" where
  "print line s = s\<lparr>console := console s @ [Text line]\<rparr>"

definition print_exc :: "error \<Rightarrow> world \<Rightarrow> world" where
  "print_exc e s = s\<lparr>console := console s @ [Shown e]\<rparr>"

subsection \<open>Class Eintrag\<close>

text \<open>
  The attributes of an Eintrag that outlive its constructor. \<open>ident\<close> is the object's
  identity: the number of the request that fetched its document, so no two objects share
  one. \<^verbatim>\<open>links\<close> and \<^verbatim>\<open>leaves\<close> are only written by \<^verbatim>\<open>index\<close> on the object itself and
  are its local variables below.
\<close>

record eintrag =
  ident :: nat
  url :: node
  source :: node
  html :: page
  title :: string

definition obj :: "eintrag \<Rightarrow> node" where
  "obj e = Entry (ident e) (url e)"

text \<open>getTitle: the title element's text without its last two space-separated tokens.\<close>

definition getTitle :: "page \<Rightarrow> error + string" where
  "getTitle pg =
     (case title_tag pg of
        None \<Rightarrow> Inl AttributeError
      | Some ft \<Rightarrow>
          (case pop (str_split CHR '' '' ft) of
             Inl e \<Rightarrow> Inl e
           | Inr t1 \<Rightarrow>
               (case pop t1 of
                  Inl e \<Rightarrow> Inl e
                | Inr t2 \<Rightarrow> Inr (str_join '' '' t2))))"

definition addToGraph :: "eintrag \<Rightarrow> world \<Rightarrow> world" where
  "addToGraph e s = s\<lparr>graph := add_edge (source e) (url e) (add_node (url e) (graph s))\<rparr>"

text \<open>
  The constructor: fetch the document (getHTMLCode), take its title (getTitle), print,
  register the entry in the graph. getText cannot fail and its value is never used.
\<close>

definition Eintrag :: "net \<Rightarrow> node \<Rightarrow> node \<Rightarrow> world \<Rightarrow> (error + eintrag) \<times> world" where
  "Eintrag web u src s =
     (let s1 = s\<lparr>ticks := ticks s + 1\<rparr>
      in case fetch web (ticks s) u of
           Inl e \<Rightarrow> (Inl e, s1)
         | Inr pg \<Rightarrow>
             (case getTitle pg of
                Inl e \<Rightarrow> (Inl e, s1)
              | Inr t \<Rightarrow>
                  (let self = \<lparr>ident = ticks s, url = u, source = src, html = pg, title = t\<rparr>
                   in (Inr self, addToGraph self (print (''Reached '' @ t) s1)))))"

text \<open>
  What \<^verbatim>\<open>index\<close> returns: the entry itself below the last layer, otherwise the list of
  what its children returned.
\<close>

datatype res = Self node | Leaves "res list"

text \<open>
  \<^verbatim>\<open>index\<close>, and the \<^verbatim>\<open>for\<close> loop of its \<^verbatim>\<open>else\<close> branch over the links still to visit,
  with the \<^verbatim>\<open>leaves\<close> collected so far. No exception is caught anywhere in them.
\<close>

function index :: "net \<Rightarrow> int \<Rightarrow> eintrag \<Rightarrow> world \<Rightarrow> (error + res) \<times> world"
  and index_loop ::
    "net \<Rightarrow> int \<Rightarrow> eintrag \<Rightarrow> string list \<Rightarrow> res list \<Rightarrow> world \<Rightarrow> (error + res list) \<times> world"
where
  "index web layers self s =
     (if layers < 0 then (Inr (Self (obj self)), s)
      else (case getLinks (hrefs (html self)) of
              Inl e \<Rightarrow> (Inl e, s)
            | Inr links \<Rightarrow>
                (case index_loop web layers self links [] s of
                   (Inl e, s') \<Rightarrow> (Inl e, s')
                 | (Inr leaves, s') \<Rightarrow> (Inr (Leaves leaves), s'))))"
| "index_loop web layers self [] leaves s = (Inr leaves, s)"
| "index_loop web layers self (l # links) leaves s =
     (case Eintrag web (Url l) (obj self) s of
        (Inl e, s1) \<Rightarrow> (Inl e, s1)
      | (Inr nextE, s1) \<Rightarrow>
          (case index web (layers - 1) nextE s1 of
             (Inl e, s2) \<Rightarrow> (Inl e, s2)
           | (Inr r, s2) \<Rightarrow> index_loop web layers self links (leaves @ [r]) s2))"
  by pat_completeness auto
termination
  by (relation "inv_image (less_than <*lex*> less_than)
        (\<lambda>x. case x of
           Inl (web, layers, self, s) \<Rightarrow>
             (if layers < 0 then 0 else 2 * nat layers + 2, 0)
         | Inr (web, layers, self, links, leaves, s) \<Rightarrow>
             (if layers < 0 then 1 else 2 * nat layers + 1, length links))")
     auto

declare index.simps [simp del]

subsection \<open>Class Webcrawler\<close>

definition start :: "net \<Rightarrow> node \<Rightarrow> int \<Rightarrow> world \<Rightarrow> (error + res) \<times> world" where
  "start web u layers s =
     (case Eintrag web u u s of
        (Inl e, s1) \<Rightarrow> (Inl e, s1)
      | (Inr startEntry, s1) \<Rightarrow>
          (case index web layers startEntry (print (''Start at: '' @ title startEntry) s1) of
             (Inl e, s2) \<Rightarrow> (Inl e, s2)
           | (Inr r, s2) \<Rightarrow> (Inr r, print ''Finished'' s2)))"

definition getRandomURL :: "net \<Rightarrow> world \<Rightarrow> (error + string) \<times> world" where
  "getRandomURL web s =
     (let s1 = s\<lparr>ticks := ticks s + 1\<rparr>
      in case random_title web (ticks s) of
           Inl e \<Rightarrow> (Inl e, s1)
         | Inr urlText \<Rightarrow> (Inr (''http://de.wikipedia.org/wiki/'' @ urlText), s1))"



text \<open>resetGraph removes the file; the attribute \<^verbatim>\<open>graph\<close> is not touched.\<close>

definition resetGraph :: "world \<Rightarrow> world" where
  "resetGraph s =
     (if graph_xml s then print ''Graph reset successful.'' (s\<lparr>graph_xml := False\<rparr>)
      else print_exc FileNotFoundError (print ''Graph reset failed.'' s))"

subsection \<open>testNodeIncrease\<close>

text \<open>\<^verbatim>\<open>str(n)\<close> for a natural number.\<close>

definition digit :: "nat \<Rightarrow> char" where
  "digit d = ''0123456789'' ! d"

fun str_nat :: "nat \<Rightarrow> string" where
  "str_nat n = (if n < 10 then [digit n] else str_nat (n div 10) @ [digit (n mod 10)])"

declare str_nat.simps [simp del]

definition newline :: char where
  "newline = CHR 0x0A"

text \<open>A \<^verbatim>\<open>for\<close> loop whose body may raise: the first exception ends it.\<close>

fun for_each ::
  "('a \<Rightarrow> world \<Rightarrow> (error + unit) \<times> world) \<Rightarrow> 'a list \<Rightarrow> world \<Rightarrow> (error + unit) \<times> world"
where
  "for_each body [] s = (Inr (), s)"
| "for_each body (x # xs) s =
     (case body x s of
        (Inl e, s1) \<Rightarrow> (Inl e, s1)
      | (Inr _, s1) \<Rightarrow> for_each body xs s1)"

definition append_log :: "string \<Rightarrow> world \<Rightarrow> world" where
  "append_log string s = s\<lparr>node_log := node_log s @ string\<rparr>"

text \<open>\<^verbatim>\<open>self.start(e, 0)\<close> as a statement: the returned tree is dropped.\<close>

definition start0 :: "net \<Rightarrow> node \<Rightarrow> world \<Rightarrow> (error + unit) \<times> world" where
  "start0 web e s =
     (case start web e 0 s of
        (Inl x, s1) \<Rightarrow> (Inl x, s1)
      | (Inr r, s1) \<Rightarrow> (Inr (), s1))"

text \<open>The body of the inner loop, lines 250 to 261, for run \<open>i\<close> and layer \<open>c\<close>.\<close>

definition layer_body :: "net \<Rightarrow> nat \<Rightarrow> nat \<Rightarrow> world \<Rightarrow> (error + unit) \<times> world" where
  "layer_body web i c s =
     (let endList = filter (\<lambda>n. degree (graph s) n = 1) (nodes (graph s))
      in case for_each (start0 web) endList s of
           (Inl x, s1) \<Rightarrow> (Inl x, s1)
         | (Inr _, s1) \<Rightarrow>
             (let string = str_nat i @ ''.'' @ str_nat c @ '': '' @
                           str_nat (number_of_nodes (graph s1))
              in (Inr (), append_log string (print string s1))))"

text \<open>The body of the outer loop, lines 243 to 261, for run \<open>i\<close>.\<close>

definition run_body :: "net \<Rightarrow> int \<Rightarrow> nat \<Rightarrow> world \<Rightarrow> (error + unit) \<times> world" where
  "run_body web layers i s =
     (case getRandomURL web s of
        (Inl x, s1) \<Rightarrow> (Inl x, s1)
      | (Inr u, s1) \<Rightarrow>
          (case start web (Url u) 0 s1 of
             (Inl x, s2) \<Rightarrow> (Inl x, s2)
           | (Inr r, s2) \<Rightarrow>
               (let string = str_nat i @ ''.0: '' @
                             str_nat (number_of_nodes (graph s2)) @ [newline]
                in for_each (layer_body web i) [0..<nat layers]
                     (append_log string (print string s2)))))"

definition testNodeIncrease :: "net \<Rightarrow> int \<Rightarrow> int \<Rightarrow> world \<Rightarrow> (error + unit) \<times> world" where
  "testNodeIncrease web runs layers s =
     for_each (run_body web layers) [0..<nat runs] (resetGraph s)"

subsection \<open>The link filter as the specification words it\<close>

text \<open>
  Section 4.1 of the specification, rule by rule. Rules 1 and 2: the href contains a
  scheme or begins with the fragment marker.
\<close>

definition scheme_or_fragment :: "string \<Rightarrow> bool" where
  "scheme_or_fragment h =
     (str_contains ''http://'' h \<or> str_contains ''https://'' h \<or> prefix ''#'' h)"

text \<open>Rule 4: the part of a segment before its first colon names an excluded namespace.\<close>

definition in_excluded_namespace :: "string \<Rightarrow> bool" where
  "in_excluded_namespace seg = (takeWhile (\<lambda>c. c \<noteq> CHR '':'') seg \<in> set exc)"

text \<open>
  Rules 1 to 4 together, read to the letter: the path has a leading empty segment, the
  segment after it is the namespace marker, and the segment after that is not in an
  excluded namespace.
\<close>

definition spec_keep :: "string \<Rightarrow> bool" where
  "spec_keep h =
     (\<not> scheme_or_fragment h \<and>
      (case str_split CHR ''/'' h of
         e # w # n # _ \<Rightarrow> e = [] \<and> w = ''wiki'' \<and> \<not> in_excluded_namespace n
       | _ \<Rightarrow> False))"

text \<open>Rule 6: each element once, at the place where it is first seen.\<close>

fun first_seen :: "'a list \<Rightarrow> 'a list" where
  "first_seen [] = []"
| "first_seen (x # xs) = x # first_seen (removeAll x xs)"

text \<open>Rules 5 to 7 after the selection: origin, deduplication, the last entry dropped.\<close>

definition LinkFilter_spec :: "string list \<Rightarrow> string list" where
  "LinkFilter_spec hs = butlast (first_seen (map ((@) origin) (filter spec_keep hs)))"

text \<open>
  Filtering completes on an anchor list: the first loop reaches the end of the list
  and the final \<^verbatim>\<open>pop\<close> finds an entry to drop.
\<close>

definition completes :: "string list \<Rightarrow> bool" where
  "completes hs = (case collect hs [] of Done ls \<Rightarrow> build ls [] \<noteq> [] | _ \<Rightarrow> False)"

subsection \<open>Relations between two states of the crawler\<close>


subsection \<open>The recursion tree of index\<close>

text \<open>
  \<open>subcall web (layers, self, s) (layers', child, s')\<close>: the call of \<^verbatim>\<open>index(layers)\<close> on
  \<open>self\<close> in state \<open>s\<close> reaches, in its loop, the link \<open>l\<close> after the links \<open>pre\<close> before
  it were indexed without an exception, constructs the child for \<open>l\<close>, and calls
  \<^verbatim>\<open>index(layers - 1)\<close> on it in state \<open>s'\<close>.
\<close>

inductive subcall ::
  "net \<Rightarrow> int \<times> eintrag \<times> world \<Rightarrow> int \<times> eintrag \<times> world \<Rightarrow> bool"
  for web :: net
where
  child:
    "0 \<le> layers \<Longrightarrow>
     getLinks (hrefs (html self)) = Inr (pre @ l # post) \<Longrightarrow>
     index_loop web layers self pre [] s = (Inr leaves, s1) \<Longrightarrow>
     Eintrag web (Url l) (obj self) s1 = (Inr nextE, s2) \<Longrightarrow>
     subcall web (layers, self, s) (layers - 1, nextE, s2)"

subsection \<open>Concrete pages and sessions\<close>

definition world0 :: world where
  "world0 = \<lparr>graph = empty_graph, ticks = 0, console = [], graph_xml = False,
             node_log = []\<rparr>"

definition seed1 :: node where
  "seed1 = Url ''http://de.wikipedia.org/wiki/Seed''"

text \<open>Scenario 1 of the specification: two external anchors, a fragment, one article.\<close>

definition scenario1 :: page where
  "scenario1 = \<lparr>title_tag = Some ''Seed - Wikipedia'',
                 hrefs = [''https://a.example/x'', ''https://b.example/y'', ''#cite'',
                          ''/wiki/X'']\<rparr>"

definition web1 :: net where
  "web1 = \<lparr>fetch = (\<lambda>t n. Inr scenario1), random_title = (\<lambda>t. Inr ''Seed'')\<rparr>"

text \<open>A site whose every page links to the articles A and B.\<close>

definition two_links :: page where
  "two_links = \<lparr>title_tag = Some ''P - Wikipedia'', hrefs = [''/wiki/A'', ''/wiki/B'']\<rparr>"

definition web2 :: net where
  "web2 = \<lparr>fetch = (\<lambda>t n. Inr two_links),
            random_title = (\<lambda>t. if t = 0 then Inr ''First'' else Inr ''Second'')\<rparr>"


text \<open>A page without anchors, and one whose only anchors lead to excluded namespaces.\<close>

definition no_anchors :: page where
  "no_anchors = \<lparr>title_tag = Some ''Leer - Wikipedia'', hrefs = []\<rparr>"

definition only_excluded :: page where
  "only_excluded = \<lparr>title_tag = Some ''Leer - Wikipedia'',
                     hrefs = [''/wiki/Diskussion:X'', ''/wiki/Spezial:Y'']\<rparr>"

definition web4 :: net where
  "web4 = \<lparr>fetch = (\<lambda>t n. Inr no_anchors), random_title = (\<lambda>t. Inr ''Seed'')\<rparr>"

text \<open>
  A site on which the article C is linked from both A and B: S links to A and B, A and
  B link to C, every other article links to D. Each page ends with one more link, Z,
  the entry the filter drops.
\<close>

definition diamond :: "string \<Rightarrow> string list" where
  "diamond u =
     (if u = ''http://de.wikipedia.org/wiki/S'' then [''/wiki/A'', ''/wiki/B'', ''/wiki/Z'']
      else if u = ''http://de.wikipedia.org/wiki/A'' \<or> u = ''http://de.wikipedia.org/wiki/B''
        then [''/wiki/C'', ''/wiki/Z'']
      else [''/wiki/D'', ''/wiki/Z''])"

definition web5 :: net where
  "web5 = \<lparr>fetch = (\<lambda>t n. case n of
                       Url u \<Rightarrow> Inr \<lparr>title_tag = Some ''P - Wikipedia'', hrefs = diamond u\<rparr>
                     | Entry i x \<Rightarrow> Inl (RequestException ''no such page'')),
            random_title = (\<lambda>t. Inr ''S'')\<rparr>"

text \<open>An entry whose document has an anchor with the empty href between two articles.\<close>

definition empty_href_entry :: eintrag where
  "empty_href_entry =
     \<lparr>ident = 0, url = seed1, source = seed1,
      html = \<lparr>title_tag = Some ''Seed - Wikipedia'', hrefs = [''/wiki/A'', [], ''/wiki/B'']\<rparr>,
      title = ''Seed''\<rparr>"

section \<open>The link filter\<close>

lemma str_split_not_Nil: "str_split c s \<noteq> []"
  by (induction s) (auto split: list.splits)

lemma hd_str_split: "hd (str_split c s) = takeWhile (\<lambda>x. x \<noteq> c) s"
  by (induction s) (auto split: list.splits simp: str_split_not_Nil)

lemma collect_append:
  "collect (pre @ rest) acc =
     (case collect pre acc of Done ls \<Rightarrow> collect rest ls | Caught \<Rightarrow> Caught
      | Uncaught e \<Rightarrow> Uncaught e)"
  by (induction pre arbitrary: acc)
     (auto split: sum.splits bool.splits list.splits scan.splits)

lemma collect_empty_href: "collect ([] # post) acc = Uncaught IndexError"
  by (simp add: first_guard_def)

lemma getLinks_empty_href:
  "collect pre [] = Done ls \<Longrightarrow> getLinks (pre @ [] # post) = Inl IndexError"
  using collect_empty_href [of post ls]
  by (simp add: getLinks_def collect_append del: collect.simps)

section \<open>The graph and the crawl\<close>

subsection \<open>Graph operations\<close>





lemma seed_graph: "add_edge u u (add_node u empty_graph) = \<lparr>nodes = [u], edges = [(u, u)]\<rparr>"
  by (simp add: add_edge_def add_node_def empty_graph_def)

subsection \<open>The constructor\<close>










subsection \<open>The recursion\<close>




lemma index_loop_append:
  "index_loop web layers self (pre @ rest) leaves s =
     (case index_loop web layers self pre leaves s of
        (Inl e, s1) \<Rightarrow> (Inl e, s1)
      | (Inr acc, s1) \<Rightarrow> index_loop web layers self rest acc s1)"
  by (induction pre arbitrary: leaves s) (auto split: prod.splits sum.splits)


lemma index_subcall_raises:
  assumes "subcall web (k, self, s) (k', self', s')"
    and "index web k' self' s' = (Inl err, sf)"
  shows "index web k self s = (Inl err, sf)"
  using assms
  by (cases rule: subcall.cases) (simp add: index.simps [of web k] index_loop_append)

lemma index_tree_raises:
  assumes "(subcall web)\<^sup>*\<^sup>* c c'" and "index web (fst c') (fst (snd c')) (snd (snd c')) = (Inl err, sf)"
  shows "index web (fst c) (fst (snd c)) (snd (snd c)) = (Inl err, sf)"
  using assms
proof (induction rule: converse_rtranclp_induct)
  case base
  then show ?case .
next
  case (step y z)
  then have "index web (fst z) (fst (snd z)) (snd (snd z)) = (Inl err, sf)" by simp
  then show ?case
    using index_subcall_raises [of web "fst y" "fst (snd y)" "snd (snd y)"
             "fst z" "fst (snd z)" "snd (snd z)" err sf] step.hyps(1)
    by simp
qed



section \<open>Properties of the crawl\<close>






text \<open>
  Claim C10. An anchor with the empty href, reached by the first loop of getLinks, makes
  getLinks raise IndexError; and when the page of any call of index in the recursion
  tree of a crawl has such anchors, the whole call of index at the root of the tree
  raises IndexError instead of treating the page as one without links.
\<close>

theorem empty_href_aborts_crawl:
  assumes "collect pre [] = Done ls"
  shows "getLinks (pre @ [] # post) = Inl IndexError \<and>
         (\<forall>web layers e0 s0 k self s.
            (subcall web)\<^sup>*\<^sup>* (layers, e0, s0) (k, self, s) \<longrightarrow> 0 \<le> k \<longrightarrow>
            hrefs (html self) = pre @ [] # post \<longrightarrow>
            index web layers e0 s0 = (Inl IndexError, s))"
proof (intro conjI allI impI)
  show gl: "getLinks (pre @ [] # post) = Inl IndexError"
    using assms by (rule getLinks_empty_href)
  fix web layers e0 s0 k self s
  assume tree: "(subcall web)\<^sup>*\<^sup>* (layers, e0, s0) (k, self, s)" and k: "0 \<le> k"
    and h: "hrefs (html self) = pre @ [] # post"
  have "index web k self s = (Inl IndexError, s)"
    using gl h k by (simp add: index.simps)
  then show "index web layers e0 s0 = (Inl IndexError, s)"
    using index_tree_raises [OF tree] by simp
qed

section \<open>Concrete runs\<close>

text \<open>
  Claim C1 at its failing input, Scenario 1 of the specification. The only valid link
  is the last entry of the filtered list and the final pop removes it, so getLinks
  returns no link; the depth-0 crawl registers one node, the seed, and one edge, the
  seed's edge to itself, and neither a node nor an edge for the target of the link.
\<close>

theorem scenario1_drops_valid_link:
  "getLinks (hrefs scenario1) = Inr [] \<and>
   nodes (graph (snd (start web1 seed1 0 world0))) = [seed1] \<and>
   edges (graph (snd (start web1 seed1 0 world0))) = [(seed1, seed1)]"
  by code_simp



text \<open>
  Claim C5 at its failing input: an href whose first segment is not empty. Filtering
  completes; getLinks keeps the href, because the first segment is removed without a
  look at it, and returns the origin glued to it, which is no URL of an article; the
  reference result of the specification is empty.
\<close>

theorem nonempty_lead_kept:
  "completes [''x/wiki/A'', ''/wiki/B''] \<and>
   getLinks [''x/wiki/A'', ''/wiki/B''] = Inr [''http://de.wikipedia.orgx/wiki/A''] \<and>
   LinkFilter_spec [''x/wiki/A'', ''/wiki/B''] = []"
  by code_simp

text \<open>Claim C10 on a page with the anchors A, the empty href, and B.\<close>

theorem empty_href_aborts_crawl_witness:
  "collect [''/wiki/A''] [] = Done [''/wiki/A''] \<and>
   hrefs (html empty_href_entry) = [''/wiki/A''] @ [] # [''/wiki/B''] \<and>
   getLinks (hrefs (html empty_href_entry)) = Inl IndexError \<and>
   index web2 1 empty_href_entry world0 = (Inl IndexError, world0)"
proof -
  have c: "collect [''/wiki/A''] [] = Done [''/wiki/A'']" by code_simp
  have h: "hrefs (html empty_href_entry) = [''/wiki/A''] @ [] # [''/wiki/B'']"
    by (simp add: empty_href_entry_def)
  have t: "(subcall web2)\<^sup>*\<^sup>* (1, empty_href_entry, world0) (1, empty_href_entry, world0)"
    by simp
  show ?thesis
    using empty_href_aborts_crawl [OF c, of "[''/wiki/B'']"] c h t by (metis zero_le_one)
qed

text \<open>
  Claim C2 at its failing inputs: a page without anchors, and a page whose anchors all
  lead to excluded namespaces. getLinks raises IndexError on both (the final pop finds
  the list empty), and the depth-0 crawl of such a page raises it too.
\<close>

theorem no_links_raises:
  "getLinks (hrefs no_anchors) = Inl IndexError \<and>
   getLinks (hrefs only_excluded) = Inl IndexError \<and>
   fst (start web4 seed1 0 world0) = Inl IndexError"
  by code_simp



end
